theory Spec2Isabelle
  imports Main "HOL-Library.Signed_Division"
begin

section \<open>The scaffold layout: header, scrollable viewport, footer\<close>

text \<open>
  This theory embeds the Go package \<^verbatim>\<open>layout\<close> (files \<^verbatim>\<open>layout/layout.go\<close> and
  \<^verbatim>\<open>layout/layout_utils.go\<close>) of the repository makeitmini/scaffold.  The file
  \<^verbatim>\<open>layout.go\<close> holds two revisions of the package one after the other; the embedding
  follows the later one (the one with \<^verbatim>\<open>verticalAlign\<close>, \<^verbatim>\<open>viewportContent\<close> and
  \<^verbatim>\<open>applyAlignment\<close>).

  Go's \<^verbatim>\<open>int\<close> is modelled by \<^typ>\<open>int\<close>: the quantities are terminal dimensions and
  line counts, far from the range where a machine integer wraps.  Go's \<^verbatim>\<open>/\<close> truncates
  towards zero, which is \<open>sdiv\<close>.  A Go string is a sequence of bytes, a \<^typ>\<open>string\<close>.
  Methods with a pointer receiver mutate the layout in place; here they take the layout
  and return the new one.
\<close>

subsection \<open>The collaborators: lipgloss styles and the bubbles viewport\<close>

text \<open>
  \<^verbatim>\<open>lipgloss.Style\<close> is an opaque rendering descriptor.  The package only builds the two
  default styles and overwrites their width on a resize, so a style is the record of the
  properties that \<^verbatim>\<open>New\<close> sets.
\<close>

datatype Position = Left | Center | Right

record Style =
  bold :: bool
  foreground :: string
  background :: string
  style_width :: int
  align :: Position

text \<open>
  Modelled from the spec: the Viewport is the external collaborator
  \<^verbatim>\<open>github.com/charmbracelet/bubbles/viewport\<close>, whose source is not part of the
  repository.  The spec describes it as a scrollable text buffer with a width, a height
  and a vertical scroll offset, which supports scroll by \<open>n\<close> lines, jump to top, jump
  to bottom, and the queries at top (offset \<open>0\<close>) and at bottom (offset equal to the
  maximum offset for the content length and the height); scrolling past a boundary clamps
  to it.  The record has the fields of \<^verbatim>\<open>viewport.Model\<close> that matter here: the package
  reads and writes \<^verbatim>\<open>Width\<close>, \<^verbatim>\<open>Height\<close> and \<^verbatim>\<open>YPosition\<close> directly; \<^verbatim>\<open>YOffset\<close> is the
  scroll offset that the scrolling methods move, and \<^verbatim>\<open>lines\<close> is the buffer, the content
  split at line breaks.  In \<^verbatim>\<open>viewport.Model\<close> the field \<^verbatim>\<open>YPosition\<close> is the position of
  the viewport on the terminal screen, a field of its own beside \<^verbatim>\<open>YOffset\<close>; no
  scrolling method reads or writes it.

  The scrolling methods set the offset through \<^verbatim>\<open>SetYOffset\<close>, which clamps it between 0
  and the maximum offset.  \<^verbatim>\<open>LineDown\<close>, \<^verbatim>\<open>LineUp\<close> and \<^verbatim>\<open>GotoTop\<close> return at once when
  there is nothing to do (already at the boundary, \<open>n = 0\<close>, an empty buffer); from a
  valid offset and with a height \<open>\<ge> 0\<close> this is the same as clamping
  (\<open>YOffset_vp_LineDown\<close>, \<open>YOffset_vp_LineUp\<close> below).  A viewport built by
  \<^verbatim>\<open>viewport.New\<close> has an empty buffer; \<^verbatim>\<open>SetContent\<close> splits the content at its line
  breaks and, when the offset lies beyond the last line, moves it to the bottom.

  The methods are modelled by their effect on these fields only.  What they compute
  besides (the visible lines that the library's scrolling methods return) is not
  modelled, and the model has no failure value: nothing is stated about a failure inside
  the library.
\<close>

record Viewport =
  Width :: int
  Height :: int
  YOffset :: int
  YPosition :: int
  lines :: "string list"

definition newline :: char where
  "newline = CHR 0x0A"

text \<open>\<^verbatim>\<open>strings.Split(s, "\n")\<close>: the lines of \<open>s\<close>; never the empty list.\<close>

fun split_lines :: "string \<Rightarrow> string list" where
  "split_lines [] = [[]]"
| "split_lines (c # cs) =
     (if c = newline then [] # split_lines cs
      else (case split_lines cs of
              [] \<Rightarrow> [[c]]
            | l # ls \<Rightarrow> (c # l) # ls))"

definition vp_New :: "int \<Rightarrow> int \<Rightarrow> Viewport" where
  "vp_New w h = \<lparr>Width = w, Height = h, YOffset = 0, YPosition = 0, lines = []\<rparr>"

definition AtTop :: "Viewport \<Rightarrow> bool" where
  "AtTop m \<longleftrightarrow> YOffset m \<le> 0"

definition maxYOffset :: "Viewport \<Rightarrow> int" where
  "maxYOffset m = max 0 (int (length (lines m)) - Height m)"

definition AtBottom :: "Viewport \<Rightarrow> bool" where
  "AtBottom m \<longleftrightarrow> YOffset m \<ge> maxYOffset m"

definition clamp :: "int \<Rightarrow> int \<Rightarrow> int \<Rightarrow> int" where
  "clamp v low high = min high (max low v)"

definition SetYOffset :: "int \<Rightarrow> Viewport \<Rightarrow> Viewport" where
  "SetYOffset n m = m\<lparr>YOffset := clamp n 0 (maxYOffset m)\<rparr>"

definition GotoTop :: "Viewport \<Rightarrow> Viewport" where
  "GotoTop m = (if AtTop m then m else SetYOffset 0 m)"

definition GotoBottom :: "Viewport \<Rightarrow> Viewport" where
  "GotoBottom m = SetYOffset (maxYOffset m) m"

definition vp_LineDown :: "int \<Rightarrow> Viewport \<Rightarrow> Viewport" where
  "vp_LineDown n m =
     (if AtBottom m \<or> n = 0 \<or> length (lines m) = 0 then m
      else SetYOffset (YOffset m + n) m)"

definition vp_LineUp :: "int \<Rightarrow> Viewport \<Rightarrow> Viewport" where
  "vp_LineUp n m =
     (if AtTop m \<or> n = 0 \<or> length (lines m) = 0 then m
      else SetYOffset (YOffset m - n) m)"

definition vp_SetContent :: "string \<Rightarrow> Viewport \<Rightarrow> Viewport" where
  "vp_SetContent s m =
     (let m1 = m\<lparr>lines := split_lines s\<rparr>
      in if YOffset m1 > int (length (lines m1)) - 1 then GotoBottom m1 else m1)"

text \<open>
  The messages of the event loop: a window resize, a key press (by its name), and any
  other message.  A command is either nothing or the quit signal.
\<close>

datatype Msg = WindowSizeMsg int int | KeyMsg string | OtherMsg

datatype Cmd = NoCmd | Quit

text \<open>
  The viewport's own \<^verbatim>\<open>Update\<close>: a key bound in its key map scrolls by a line, half a
  page or a page, through the scrolling methods above; every other message leaves the
  viewport as it is.  It never changes the width, the height, \<^verbatim>\<open>YPosition\<close> or the
  buffer.
\<close>

definition vp_Update :: "Msg \<Rightarrow> Viewport \<Rightarrow> Viewport \<times> Cmd" where
  "vp_Update msg m =
     (case msg of
        KeyMsg k \<Rightarrow>
          (if k \<in> set [''pgdown'', '' '', ''f''] then
             (if AtBottom m then m else vp_LineDown (Height m) m, NoCmd)
           else if k \<in> set [''pgup'', ''b''] then
             (if AtTop m then m else vp_LineUp (Height m) m, NoCmd)
           else if k \<in> set [''d'', ''ctrl+d''] then
             (if AtBottom m then m else vp_LineDown (Height m sdiv 2) m, NoCmd)
           else if k \<in> set [''u'', ''ctrl+u''] then
             (if AtTop m then m else vp_LineUp (Height m sdiv 2) m, NoCmd)
           else if k \<in> set [''down'', ''j''] then (vp_LineDown 1 m, NoCmd)
           else if k \<in> set [''up'', ''k''] then (vp_LineUp 1 m, NoCmd)
           else (m, NoCmd))
      | _ \<Rightarrow> (m, NoCmd))"

subsection \<open>The layout and its setters (layout.go)\<close>

datatype VerticalAlignment = AlignTop | AlignCenter | AlignBottom

record Layout =
  header :: string
  footer :: string
  headerHeight :: int
  footerHeight :: int
  viewport :: Viewport
  windowWidth :: int
  windowHeight :: int
  headerStyle :: Style
  footerStyle :: Style
  pendingContent :: string
  verticalAlign :: VerticalAlignment
  viewportContent :: string

text \<open>
  \<^verbatim>\<open>New\<close> leaves \<^verbatim>\<open>viewport\<close>, the window dimensions and the two content strings at
  their zero values.
\<close>

definition New :: Layout where
  "New =
     \<lparr>header = ''Header'',
      footer = ''Footer'',
      headerHeight = 1,
      footerHeight = 1,
      viewport = \<lparr>Width = 0, Height = 0, YOffset = 0, YPosition = 0, lines = []\<rparr>,
      windowWidth = 0,
      windowHeight = 0,
      headerStyle = \<lparr>bold = True, foreground = ''#FFFFFF'', background = ''#0000FF'',
                     style_width = 100, align = Center\<rparr>,
      footerStyle = \<lparr>bold = True, foreground = ''#FFFFFF'', background = ''#333333'',
                     style_width = 100, align = Center\<rparr>,
      pendingContent = [],
      verticalAlign = AlignTop,
      viewportContent = []\<rparr>"

definition SetHeader :: "string \<Rightarrow> Layout \<Rightarrow> Layout" where
  "SetHeader h l = l\<lparr>header := h\<rparr>"

definition SetHeaderHeight :: "int \<Rightarrow> Layout \<Rightarrow> Layout" where
  "SetHeaderHeight height l = l\<lparr>headerHeight := height\<rparr>"

definition SetHeaderStyle :: "Style \<Rightarrow> Layout \<Rightarrow> Layout" where
  "SetHeaderStyle style l = l\<lparr>headerStyle := style\<rparr>"

definition SetFooter :: "string \<Rightarrow> Layout \<Rightarrow> Layout" where
  "SetFooter f l = l\<lparr>footer := f\<rparr>"

definition SetFooterHeight :: "int \<Rightarrow> Layout \<Rightarrow> Layout" where
  "SetFooterHeight height l = l\<lparr>footerHeight := height\<rparr>"

definition SetFooterStyle :: "Style \<Rightarrow> Layout \<Rightarrow> Layout" where
  "SetFooterStyle style l = l\<lparr>footerStyle := style\<rparr>"

subsection \<open>Vertical alignment\<close>

text \<open>
  The padding loop of \<^verbatim>\<open>applyAlignment\<close>,
  \<^verbatim>\<open>for i := 0; i < n; i++ { paddedContent.WriteString("\n") }\<close>,
  on the builder's buffer \<open>b\<close>.
\<close>

function writePadding :: "int \<Rightarrow> int \<Rightarrow> string \<Rightarrow> string" where
  "writePadding i n b = (if i < n then writePadding (i + 1) n (b @ [newline]) else b)"
  by pat_completeness auto
termination
  by (relation "measure (\<lambda>(i, n, b). nat (n - i))") auto

declare writePadding.simps [simp del]

text \<open>\<^verbatim>\<open>strings.Count(s, "\n")\<close>.\<close>

definition count_newlines :: "string \<Rightarrow> int" where
  "count_newlines s = int (length (filter (\<lambda>c. c = newline) s))"

definition applyAlignment :: "Layout \<Rightarrow> Layout" where
  "applyAlignment l =
     (if Width (viewport l) = 0 then l
      else
        let lns = count_newlines (viewportContent l) + 1
        in if lns < Height (viewport l) then
             (let paddingSize = Height (viewport l) - lns
              in case verticalAlign l of
                   AlignTop \<Rightarrow>
                     l\<lparr>viewport := vp_SetContent (viewportContent l) (viewport l)\<rparr>
                 | AlignCenter \<Rightarrow>
                     (let topPadding = paddingSize sdiv 2;
                          paddedContent = writePadding 0 topPadding [];
                          paddedContent = paddedContent @ viewportContent l
                      in l\<lparr>viewport := vp_SetContent paddedContent (viewport l)\<rparr>)
                 | AlignBottom \<Rightarrow>
                     (let paddedContent = writePadding 0 paddingSize [];
                          paddedContent = paddedContent @ viewportContent l
                      in l\<lparr>viewport := vp_SetContent paddedContent (viewport l)\<rparr>))
           else l\<lparr>viewport := vp_SetContent (viewportContent l) (viewport l)\<rparr>)"

definition SetContent :: "string \<Rightarrow> Layout \<Rightarrow> Layout" where
  "SetContent content l =
     (let l = l\<lparr>viewportContent := content\<rparr>
      in if Width (viewport l) = 0 then l\<lparr>pendingContent := content\<rparr>
         else applyAlignment l)"

definition SetVerticalAlignment :: "VerticalAlignment \<Rightarrow> Layout \<Rightarrow> Layout" where
  "SetVerticalAlignment alignment l =
     (let l = l\<lparr>verticalAlign := alignment\<rparr>
      in if viewportContent l \<noteq> [] \<and> Width (viewport l) > 0 then applyAlignment l
         else l)"

subsection \<open>The event handler and the renderer\<close>

definition Update :: "Msg \<Rightarrow> Layout \<Rightarrow> Layout \<times> Cmd" where
  "Update msg l =
     (case msg of
        WindowSizeMsg w h \<Rightarrow>
          (let l = l\<lparr>windowWidth := w, windowHeight := h\<rparr>;
               l = l\<lparr>headerStyle := (headerStyle l)\<lparr>style_width := windowWidth l\<rparr>\<rparr>;
               l = l\<lparr>footerStyle := (footerStyle l)\<lparr>style_width := windowWidth l\<rparr>\<rparr>;
               viewportHeight = windowHeight l - headerHeight l - footerHeight l;
               l = (if Width (viewport l) = 0 then
                      (let l = l\<lparr>viewport := vp_New (windowWidth l) viewportHeight\<rparr>
                       in if pendingContent l \<noteq> [] then
                            applyAlignment
                              (l\<lparr>viewportContent := pendingContent l, pendingContent := []\<rparr>)
                          else l)
                    else
                      applyAlignment
                        (l\<lparr>viewport := (viewport l)\<lparr>Width := windowWidth l,
                                                      Height := viewportHeight\<rparr>\<rparr>));
               (v, cmd) = vp_Update msg (viewport l)
           in (l\<lparr>viewport := v\<rparr>, cmd))
      | KeyMsg k \<Rightarrow>
          (if k = ''ctrl+c'' \<or> k = ''q'' then (l, Quit)
           else
             (let (v, cmd) = vp_Update msg (viewport l)
              in (l\<lparr>viewport := v\<rparr>, cmd)))
      | OtherMsg \<Rightarrow>
          (let (v, cmd) = vp_Update msg (viewport l)
           in (l\<lparr>viewport := v\<rparr>, cmd)))"

text \<open>
  \<^verbatim>\<open>View\<close> renders through lipgloss and the viewport.  The three renderers are
  parameters: \<open>render\<close> is \<^verbatim>\<open>Style.Render\<close>, \<open>vp_View\<close> is the viewport's \<^verbatim>\<open>View\<close> and
  \<open>joinVertical\<close> is \<^verbatim>\<open>lipgloss.JoinVertical\<close>.
\<close>

definition View ::
  "(Style \<Rightarrow> string \<Rightarrow> string) \<Rightarrow> (Viewport \<Rightarrow> string) \<Rightarrow>
   (Position \<Rightarrow> string list \<Rightarrow> string) \<Rightarrow> Layout \<Rightarrow> string" where
  "View render vp_View joinVertical l =
     (if windowHeight l = 0 then ''Initializing...''
      else
        let hdr = render (headerStyle l) (header l);
            viewportContent = vp_View (viewport l);
            ftr = render (footerStyle l) (footer l)
        in joinVertical Left [hdr, viewportContent, ftr])"

subsection \<open>Navigation and queries (layout\_utils.go)\<close>

definition GetViewportHeight :: "Layout \<Rightarrow> int" where
  "GetViewportHeight l = Height (viewport l)"

definition GetViewportWidth :: "Layout \<Rightarrow> int" where
  "GetViewportWidth l = Width (viewport l)"

definition SetViewportYPosition :: "int \<Rightarrow> Layout \<Rightarrow> Layout" where
  "SetViewportYPosition y l = l\<lparr>viewport := (viewport l)\<lparr>YPosition := y\<rparr>\<rparr>"

definition GetViewportYPosition :: "Layout \<Rightarrow> int" where
  "GetViewportYPosition l = YPosition (viewport l)"

definition ViewportAtTop :: "Layout \<Rightarrow> bool" where
  "ViewportAtTop l = AtTop (viewport l)"

definition ViewportAtBottom :: "Layout \<Rightarrow> bool" where
  "ViewportAtBottom l = AtBottom (viewport l)"

definition LineDown :: "Layout \<Rightarrow> Layout" where
  "LineDown l = l\<lparr>viewport := vp_LineDown 1 (viewport l)\<rparr>"

definition LineUp :: "Layout \<Rightarrow> Layout" where
  "LineUp l = l\<lparr>viewport := vp_LineUp 1 (viewport l)\<rparr>"

definition HalfPageDown :: "Layout \<Rightarrow> Layout" where
  "HalfPageDown l =
     (let halfPageHeight = Height (viewport l) sdiv 2
      in l\<lparr>viewport := vp_LineDown halfPageHeight (viewport l)\<rparr>)"

definition HalfPageUp :: "Layout \<Rightarrow> Layout" where
  "HalfPageUp l =
     (let halfPageHeight = Height (viewport l) sdiv 2
      in l\<lparr>viewport := vp_LineUp halfPageHeight (viewport l)\<rparr>)"

definition PageDown :: "Layout \<Rightarrow> Layout" where
  "PageDown l = l\<lparr>viewport := vp_LineDown (Height (viewport l)) (viewport l)\<rparr>"

definition PageUp :: "Layout \<Rightarrow> Layout" where
  "PageUp l = l\<lparr>viewport := vp_LineUp (Height (viewport l)) (viewport l)\<rparr>"

definition ScrollToTop :: "Layout \<Rightarrow> Layout" where
  "ScrollToTop l = l\<lparr>viewport := GotoTop (viewport l)\<rparr>"

definition ScrollToBottom :: "Layout \<Rightarrow> Layout" where
  "ScrollToBottom l = l\<lparr>viewport := GotoBottom (viewport l)\<rparr>"

subsection \<open>The alignment rule in the words of the specification\<close>

text \<open>
  The specification counts the lines of a content as its line breaks plus one, and
  describes the aligned content: unchanged when the content has at least \<open>H\<close> lines;
  otherwise unchanged for Top, preceded by \<open>(H - lineCount) / 2\<close> blank lines for
  Center, and by \<open>H - lineCount\<close> blank lines for Bottom.  A blank line in front of the
  content is one line break.
\<close>

definition lineCount :: "string \<Rightarrow> int" where
  "lineCount C = count_newlines C + 1"

definition blank_lines :: "int \<Rightarrow> string" where
  "blank_lines k = replicate (nat k) newline"

definition spec_aligned :: "VerticalAlignment \<Rightarrow> int \<Rightarrow> string \<Rightarrow> string" where
  "spec_aligned a H C =
     (if lineCount C \<ge> H then C
      else case a of
             AlignTop \<Rightarrow> C
           | AlignCenter \<Rightarrow> blank_lines ((H - lineCount C) div 2) @ C
           | AlignBottom \<Rightarrow> blank_lines (H - lineCount C) @ C)"

subsection \<open>Histories of calls\<close>

text \<open>
  The host owns one layout and calls its exported methods one after the other.  A
  reachable state is \<open>run cs New\<close> for a list \<open>cs\<close> of calls.
\<close>

datatype Call =
    DoSetHeader string
  | DoSetHeaderHeight int
  | DoSetHeaderStyle Style
  | DoSetFooter string
  | DoSetFooterHeight int
  | DoSetFooterStyle Style
  | DoSetContent string
  | DoSetVerticalAlignment VerticalAlignment
  | DoUpdate Msg
  | DoSetViewportYPosition int
  | DoLineDown
  | DoLineUp
  | DoHalfPageDown
  | DoHalfPageUp
  | DoPageDown
  | DoPageUp
  | DoScrollToTop
  | DoScrollToBottom

fun call :: "Call \<Rightarrow> Layout \<Rightarrow> Layout" where
  "call (DoSetHeader h) l = SetHeader h l"
| "call (DoSetHeaderHeight n) l = SetHeaderHeight n l"
| "call (DoSetHeaderStyle s) l = SetHeaderStyle s l"
| "call (DoSetFooter f) l = SetFooter f l"
| "call (DoSetFooterHeight n) l = SetFooterHeight n l"
| "call (DoSetFooterStyle s) l = SetFooterStyle s l"
| "call (DoSetContent c) l = SetContent c l"
| "call (DoSetVerticalAlignment a) l = SetVerticalAlignment a l"
| "call (DoUpdate msg) l = fst (Update msg l)"
| "call (DoSetViewportYPosition y) l = SetViewportYPosition y l"
| "call DoLineDown l = LineDown l"
| "call DoLineUp l = LineUp l"
| "call DoHalfPageDown l = HalfPageDown l"
| "call DoHalfPageUp l = HalfPageUp l"
| "call DoPageDown l = PageDown l"
| "call DoPageUp l = PageUp l"
| "call DoScrollToTop l = ScrollToTop l"
| "call DoScrollToBottom l = ScrollToBottom l"

fun run :: "Call list \<Rightarrow> Layout \<Rightarrow> Layout" where
  "run [] l = l"
| "run (c # cs) l = run cs (call c l)"

text \<open>A call other than a window resize to width \<open>0\<close>.\<close>

fun resize_nonzero :: "Call \<Rightarrow> bool" where
  "resize_nonzero (DoUpdate (WindowSizeMsg w h)) = (w \<noteq> 0)"
| "resize_nonzero _ = True"


subsection \<open>Sample inputs\<close>

text \<open>
  A four-line content, and the layout that a host gets from \<^verbatim>\<open>New\<close> by a first resize
  to 80 columns and \<open>h\<close> rows, a choice of alignment and a content.
\<close>

definition four_lines :: string where
  "four_lines = [CHR ''a'', newline, CHR ''b'', newline, CHR ''c'', newline, CHR ''d'']"

definition sized_layout :: "VerticalAlignment \<Rightarrow> int \<Rightarrow> string \<Rightarrow> Layout" where
  "sized_layout a h c =
     SetContent c (SetVerticalAlignment a (fst (Update (WindowSizeMsg 80 h) New)))"

text \<open>A call that delivers a window resize event.\<close>

fun is_resize :: "Call \<Rightarrow> bool" where
  "is_resize (DoUpdate (WindowSizeMsg w h)) = True"
| "is_resize _ = False"

text \<open>
  Renderers for evaluating \<^verbatim>\<open>View\<close> on an example: the text without styling, the lines
  of the viewport one after the other, and the blocks one after the other.
\<close>

definition plain_render :: "Style \<Rightarrow> string \<Rightarrow> string" where
  "plain_render s t = t"

definition plain_view :: "Viewport \<Rightarrow> string" where
  "plain_view m = concat (lines m)"

definition plain_join :: "Position \<Rightarrow> string list \<Rightarrow> string" where
  "plain_join p ss = concat ss"

text \<open>
  Four lines of content set before the first resize, a resize to 80 columns and 5 rows
  (a viewport of height 3), and one \<^verbatim>\<open>LineDown\<close>.
\<close>

definition scrolled_once :: Layout where
  "scrolled_once = LineDown (fst (Update (WindowSizeMsg 80 5) (SetContent four_lines New)))"


definition empty_recentered :: Layout where
  "empty_recentered =
     run [DoUpdate (WindowSizeMsg 80 12), DoSetContent [],
          DoSetVerticalAlignment AlignCenter] New"

definition zero_then_wide :: Layout where
  "zero_then_wide =
     run [DoSetContent four_lines, DoUpdate (WindowSizeMsg 0 12),
          DoUpdate (WindowSizeMsg 80 12)] New"

definition realigned_history :: "Call list" where
  "realigned_history =
     [DoSetContent four_lines, DoUpdate (WindowSizeMsg 80 12),
      DoSetVerticalAlignment AlignBottom, DoLineDown, DoUpdate (WindowSizeMsg 80 9)]"

definition empty_first_resize :: Layout where
  "empty_first_resize =
     fst (Update (WindowSizeMsg 80 12) (SetContent [] (SetVerticalAlignment AlignCenter New)))"

definition zero_width_resize :: Layout where
  "zero_width_resize = fst (Update (WindowSizeMsg 0 12) (SetContent four_lines New))"

definition later_history :: "Call list" where
  "later_history = [DoSetContent four_lines, DoUpdate (WindowSizeMsg 100 30), DoPageDown]"

text \<open>Contents of twelve and of nine lines, and histories that scroll them.\<close>

definition twelve_lines :: string where
  "twelve_lines = concat (replicate 11 [CHR ''x'', newline]) @ ''x''"

definition nine_lines :: string where
  "nine_lines = concat (replicate 8 [CHR ''x'', newline]) @ ''x''"

definition past_bottom_history :: "Call list" where
  "past_bottom_history =
     [DoSetContent twelve_lines, DoUpdate (WindowSizeMsg 80 6), DoScrollToBottom,
      DoSetContent nine_lines]"

definition negative_height_history :: "Call list" where
  "negative_height_history =
     [DoSetContent twelve_lines, DoSetHeaderHeight 4, DoUpdate (WindowSizeMsg 80 2),
      DoLineDown, DoLineDown, DoLineDown]"


definition top_history :: "int \<Rightarrow> Call list" where
  "top_history h = [DoSetContent twelve_lines, DoUpdate (WindowSizeMsg 80 h)]"

definition middle_history :: "Call list" where
  "middle_history = [DoSetContent twelve_lines, DoUpdate (WindowSizeMsg 80 6), DoPageDown]"


definition stale_history :: "Call list" where
  "stale_history =
     [DoUpdate (WindowSizeMsg 80 12), DoSetContent [], DoSetVerticalAlignment AlignCenter]"

definition between_history :: "Call list" where
  "between_history =
     [DoSetVerticalAlignment AlignCenter, DoSetHeaderHeight 3, DoLineDown,
      DoUpdate (KeyMsg ''j''), DoSetViewportYPosition 2]"

definition refill_history :: "Call list" where
  "refill_history =
     [DoSetContent four_lines, DoUpdate (WindowSizeMsg 80 12), DoUpdate (WindowSizeMsg 0 12),
      DoSetContent ''x'']"

text \<open>A call that is neither a window resize event nor \<^verbatim>\<open>SetContent\<close>.\<close>

fun keeps_pending :: "Call \<Rightarrow> bool" where
  "keeps_pending (DoUpdate (WindowSizeMsg w h)) = False"
| "keeps_pending (DoSetContent c) = False"
| "keeps_pending _ = True"

subsection \<open>State predicates\<close>


text \<open>
  While the layout is unsized the raw content is the pending content.  Once it is sized,
  the buffer of the viewport is the aligned raw content if the raw content is not empty;
  if the raw content is empty, the buffer is empty (never set) or the aligned empty content
  for the current height and some alignment mode.
\<close>

definition content_aligned :: "Layout \<Rightarrow> bool" where
  "content_aligned l \<longleftrightarrow>
     (Width (viewport l) = 0 \<longrightarrow> viewportContent l = pendingContent l) \<and>
     (Width (viewport l) > 0 \<and> viewportContent l \<noteq> [] \<longrightarrow>
        lines (viewport l) =
          split_lines (spec_aligned (verticalAlign l) (Height (viewport l)) (viewportContent l))) \<and>
     (Width (viewport l) > 0 \<and> viewportContent l = [] \<longrightarrow>
        lines (viewport l) = [] \<or>
        (\<exists>a. lines (viewport l) = split_lines (spec_aligned a (Height (viewport l)) [])))"

text \<open>The layout has been sized and holds no pending content.\<close>

definition pending_consumed :: "Layout \<Rightarrow> bool" where
  "pending_consumed l \<longleftrightarrow> Width (viewport l) \<noteq> 0 \<and> pendingContent l = []"

section \<open>Basic facts\<close>

lemma writePadding_eq: "writePadding i n b = b @ replicate (nat (n - i)) newline"
proof (induction i n b rule: writePadding.induct)
  case (1 i n b)
  show ?case
  proof (cases "i < n")
    case True
    then have "nat (n - i) = Suc (nat (n - (i + 1)))" by simp
    with True 1 show ?thesis
      by (subst writePadding.simps) (simp add: replicate_append_same)
  next
    case False
    then show ?thesis by (subst writePadding.simps) simp
  qed
qed

lemma writePadding_blank: "writePadding 0 n [] = blank_lines n"
  by (simp add: writePadding_eq blank_lines_def)

lemma split_lines_not_Nil: "split_lines s \<noteq> []"
  by (induction s) (auto split: list.splits)

lemma length_split_lines: "int (length (split_lines s)) = lineCount s"
  by (induction s) (auto simp: lineCount_def count_newlines_def split: list.splits)

lemma split_lines_replicate:
  "split_lines (replicate n newline @ s) = replicate n [] @ split_lines s"
  by (induction n) simp_all

lemma split_lines_blank:
  "split_lines (blank_lines k @ s) = replicate (nat k) [] @ split_lines s"
  by (simp add: blank_lines_def split_lines_replicate)

lemma sdiv_two_nonneg: "0 \<le> k \<Longrightarrow> k sdiv 2 = k div (2::int)"
  by (simp add: signed_divide_int_def sgn_if)

lemma maxYOffset_nonneg: "0 \<le> maxYOffset m"
  by (simp add: maxYOffset_def)

lemma vp_SetContent_fields:
  "Width (vp_SetContent s m) = Width m"
  "Height (vp_SetContent s m) = Height m"
  "YPosition (vp_SetContent s m) = YPosition m"
  "lines (vp_SetContent s m) = split_lines s"
  by (simp_all add: vp_SetContent_def Let_def GotoBottom_def SetYOffset_def)

lemma vp_SetContent_idem: "vp_SetContent s (vp_SetContent s m) = vp_SetContent s m"
  by (simp add: vp_SetContent_def Let_def GotoBottom_def SetYOffset_def maxYOffset_def clamp_def)

text \<open>
  The code of \<^verbatim>\<open>applyAlignment\<close> hands the viewport the content that the specification
  describes.
\<close>

lemma applyAlignment_eq:
  "applyAlignment l =
     (if Width (viewport l) = 0 then l
      else l\<lparr>viewport :=
              vp_SetContent (spec_aligned (verticalAlign l) (Height (viewport l)) (viewportContent l))
                (viewport l)\<rparr>)"
proof (cases "lineCount (viewportContent l) < Height (viewport l)")
  case True
  then have "0 \<le> Height (viewport l) - lineCount (viewportContent l)" by simp
  with True show ?thesis
    by (cases "verticalAlign l")
       (simp_all add: applyAlignment_def spec_aligned_def Let_def lineCount_def [symmetric]
          writePadding_blank sdiv_two_nonneg)
next
  case False
  then show ?thesis
    by (simp add: applyAlignment_def spec_aligned_def Let_def lineCount_def [symmetric])
qed

text \<open>The two branches of a resize event, with the local bindings of \<^verbatim>\<open>Update\<close> resolved.\<close>

lemma Update_resize_unsized:
  "Width (viewport l) = 0 \<Longrightarrow>
   fst (Update (WindowSizeMsg w h) l) =
     (let l1 = l\<lparr>windowWidth := w, windowHeight := h,
                  headerStyle := (headerStyle l)\<lparr>style_width := w\<rparr>,
                  footerStyle := (footerStyle l)\<lparr>style_width := w\<rparr>,
                  viewport := vp_New w (h - headerHeight l - footerHeight l)\<rparr>
      in if pendingContent l \<noteq> [] then
           applyAlignment (l1\<lparr>viewportContent := pendingContent l, pendingContent := []\<rparr>)
         else l1)"
  by (simp add: Update_def Let_def vp_Update_def split: prod.splits)

lemma Update_resize_sized:
  "Width (viewport l) \<noteq> 0 \<Longrightarrow>
   fst (Update (WindowSizeMsg w h) l) =
     applyAlignment
       (l\<lparr>windowWidth := w, windowHeight := h,
          headerStyle := (headerStyle l)\<lparr>style_width := w\<rparr>,
          footerStyle := (footerStyle l)\<lparr>style_width := w\<rparr>,
          viewport := (viewport l)\<lparr>Width := w, Height := h - headerHeight l - footerHeight l\<rparr>\<rparr>)"
  by (simp add: Update_def Let_def vp_Update_def split: prod.splits)

lemma sized_layout_fields:
  "Width (viewport (sized_layout a h c)) = 80"
  "Height (viewport (sized_layout a h c)) = h - 2"
  "viewportContent (sized_layout a h c) = c"
  "verticalAlign (sized_layout a h c) = a"
  by (simp_all add: sized_layout_def SetContent_def SetVerticalAlignment_def Let_def
        applyAlignment_eq Update_resize_unsized New_def vp_New_def vp_SetContent_fields)

lemma four_lines_facts:
  "lineCount four_lines = 4"
  "split_lines four_lines = [''a'', ''b'', ''c'', ''d'']"
  by (simp_all add: four_lines_def lineCount_def count_newlines_def newline_def)

lemma applyAlignment_fields:
  "viewportContent (applyAlignment l) = viewportContent l"
  "verticalAlign (applyAlignment l) = verticalAlign l"
  "pendingContent (applyAlignment l) = pendingContent l"
  "windowHeight (applyAlignment l) = windowHeight l"
  "windowWidth (applyAlignment l) = windowWidth l"
  "headerHeight (applyAlignment l) = headerHeight l"
  "footerHeight (applyAlignment l) = footerHeight l"
  "Width (viewport (applyAlignment l)) = Width (viewport l)"
  "Height (viewport (applyAlignment l)) = Height (viewport l)"
  "YPosition (viewport (applyAlignment l)) = YPosition (viewport l)"
  by (simp_all add: applyAlignment_eq vp_SetContent_fields)

lemma sized_layout_more:
  "windowHeight (sized_layout a h c) = h"
  "header (sized_layout a h c) = ''Header''"
  "footer (sized_layout a h c) = ''Footer''"
  "lines (viewport (sized_layout a h c)) = split_lines (spec_aligned a (h - 2) c)"
  by (simp_all add: sized_layout_def SetContent_def SetVerticalAlignment_def Let_def
        applyAlignment_eq Update_resize_unsized New_def vp_New_def vp_SetContent_fields)

lemma call_windowHeight:
  "\<not> is_resize c \<Longrightarrow> windowHeight (call c l) = windowHeight l"
proof (cases c)
  case (DoUpdate msg)
  assume "\<not> is_resize c"
  with DoUpdate show ?thesis
    by (cases msg) (simp_all add: Update_def Let_def split: prod.splits)
qed (simp_all add: SetHeader_def SetHeaderHeight_def SetHeaderStyle_def SetFooter_def
      SetFooterHeight_def SetFooterStyle_def SetContent_def SetVerticalAlignment_def
      SetViewportYPosition_def LineDown_def LineUp_def HalfPageDown_def HalfPageUp_def
      PageDown_def PageUp_def ScrollToTop_def ScrollToBottom_def Let_def applyAlignment_fields)

lemma run_windowHeight:
  "list_all (\<lambda>c. \<not> is_resize c) cs \<Longrightarrow> windowHeight (run cs l) = windowHeight l"
  by (induction cs arbitrary: l) (simp_all add: call_windowHeight)

lemma SetYOffset_fields:
  "Width (SetYOffset n m) = Width m"
  "Height (SetYOffset n m) = Height m"
  "YPosition (SetYOffset n m) = YPosition m"
  "lines (SetYOffset n m) = lines m"
  "maxYOffset (SetYOffset n m) = maxYOffset m"
  by (simp_all add: SetYOffset_def maxYOffset_def)

lemma vp_scroll_fields:
  "Width (GotoTop m) = Width m" "Height (GotoTop m) = Height m"
  "YPosition (GotoTop m) = YPosition m" "lines (GotoTop m) = lines m"
  "Width (GotoBottom m) = Width m" "Height (GotoBottom m) = Height m"
  "YPosition (GotoBottom m) = YPosition m" "lines (GotoBottom m) = lines m"
  "Width (vp_LineDown n m) = Width m" "Height (vp_LineDown n m) = Height m"
  "YPosition (vp_LineDown n m) = YPosition m" "lines (vp_LineDown n m) = lines m"
  "Width (vp_LineUp n m) = Width m" "Height (vp_LineUp n m) = Height m"
  "YPosition (vp_LineUp n m) = YPosition m" "lines (vp_LineUp n m) = lines m"
  by (simp_all add: GotoTop_def GotoBottom_def vp_LineDown_def vp_LineUp_def SetYOffset_fields)

lemma vp_Update_fields:
  "Width (fst (vp_Update msg m)) = Width m"
  "Height (fst (vp_Update msg m)) = Height m"
  "YPosition (fst (vp_Update msg m)) = YPosition m"
  "lines (fst (vp_Update msg m)) = lines m"
  by (cases msg; simp add: vp_Update_def vp_scroll_fields)+

lemma Update_key:
  "fst (Update (KeyMsg k) l) =
     (if k = ''ctrl+c'' \<or> k = ''q'' then l
      else l\<lparr>viewport := fst (vp_Update (KeyMsg k) (viewport l))\<rparr>)"
  "fst (Update OtherMsg l) = l\<lparr>viewport := fst (vp_Update OtherMsg (viewport l))\<rparr>"
  by (simp_all add: Update_def Let_def split: prod.splits)

lemmas nav_defs = SetViewportYPosition_def LineDown_def LineUp_def HalfPageDown_def
  HalfPageUp_def PageDown_def PageUp_def ScrollToTop_def ScrollToBottom_def

lemmas setter_defs = SetHeader_def SetHeaderHeight_def SetHeaderStyle_def SetFooter_def
  SetFooterHeight_def SetFooterStyle_def

section \<open>Invariants along a history\<close>




lemma content_aligned_New: "content_aligned New"
  by (simp add: content_aligned_def New_def)

lemma call_content_aligned:
  assumes "resize_nonzero c" and "content_aligned l"
  shows "content_aligned (call c l)"
proof (cases c)
  case (DoUpdate msg)
  show ?thesis
  proof (cases msg)
    case (WindowSizeMsg w h)
    with DoUpdate assms(1) have w: "w \<noteq> 0" by simp
    show ?thesis
    proof (cases "Width (viewport l) = 0")
      case True
      with assms(2) w show ?thesis
        unfolding DoUpdate WindowSizeMsg
        by (simp add: content_aligned_def Update_resize_unsized Let_def applyAlignment_eq
              vp_SetContent_fields vp_New_def)
    next
      case False
      with w show ?thesis
        unfolding DoUpdate WindowSizeMsg
        by (auto simp add: content_aligned_def Update_resize_sized applyAlignment_eq
              vp_SetContent_fields)
    qed
  next
    case (KeyMsg k)
    with DoUpdate assms show ?thesis
      by (simp add: Update_key content_aligned_def vp_Update_fields)
  next
    case OtherMsg
    with DoUpdate assms show ?thesis
      by (simp add: Update_key content_aligned_def vp_Update_fields)
  qed
next
  case (DoSetContent s)
  with assms show ?thesis
    by (auto simp add: content_aligned_def SetContent_def Let_def applyAlignment_eq
          vp_SetContent_fields)
next
  case (DoSetVerticalAlignment a)
  with assms show ?thesis
    by (auto simp add: content_aligned_def SetVerticalAlignment_def Let_def applyAlignment_eq
          vp_SetContent_fields)
qed (use assms in \<open>simp_all add: content_aligned_def setter_defs nav_defs vp_scroll_fields\<close>)

lemma run_content_aligned:
  "list_all resize_nonzero cs \<Longrightarrow> content_aligned l \<Longrightarrow> content_aligned (run cs l)"
  by (induction cs arbitrary: l) (simp_all add: call_content_aligned)

lemma call_keeps_pending:
  assumes "keeps_pending k" and "Width (viewport l) = 0"
  shows "Width (viewport (call k l)) = 0 \<and> pendingContent (call k l) = pendingContent l \<and>
         viewportContent (call k l) = viewportContent l"
proof (cases k)
  case (DoUpdate msg)
  with assms show ?thesis
    by (cases msg) (simp_all add: Update_key vp_Update_fields)
qed (use assms in \<open>simp_all add: setter_defs nav_defs vp_scroll_fields
       SetVerticalAlignment_def Let_def\<close>)

lemma run_keeps_pending:
  "list_all keeps_pending ks \<Longrightarrow> Width (viewport l) = 0 \<Longrightarrow>
   Width (viewport (run ks l)) = 0 \<and> pendingContent (run ks l) = pendingContent l \<and>
   viewportContent (run ks l) = viewportContent l"
  by (induction ks arbitrary: l) (simp_all add: call_keeps_pending)

lemma call_pending_consumed:
  assumes "resize_nonzero c" and "pending_consumed l"
  shows "pending_consumed (call c l)"
proof (cases c)
  case (DoUpdate msg)
  show ?thesis
  proof (cases msg)
    case (WindowSizeMsg w h)
    with DoUpdate assms show ?thesis
      by (simp add: pending_consumed_def Update_resize_sized applyAlignment_fields)
  next
    case (KeyMsg k)
    with DoUpdate assms show ?thesis
      by (simp add: Update_key pending_consumed_def vp_Update_fields)
  next
    case OtherMsg
    with DoUpdate assms show ?thesis
      by (simp add: Update_key pending_consumed_def vp_Update_fields)
  qed
qed (use assms in \<open>simp_all add: pending_consumed_def setter_defs nav_defs vp_scroll_fields
       SetContent_def SetVerticalAlignment_def Let_def applyAlignment_fields\<close>)

lemma run_pending_consumed:
  "list_all resize_nonzero cs \<Longrightarrow> pending_consumed l \<Longrightarrow> pending_consumed (run cs l)"
  by (induction cs arbitrary: l) (simp_all add: call_pending_consumed)

section \<open>Scroll offsets\<close>

lemma YOffset_SetYOffset: "YOffset (SetYOffset n m) = min (maxYOffset m) (max 0 n)"
  by (simp add: SetYOffset_def clamp_def)

lemma maxYOffset_YOffset_update [simp]: "maxYOffset (m\<lparr>YOffset := y\<rparr>) = maxYOffset m"
  by (simp add: maxYOffset_def)

lemma YOffset_vp_LineDown:
  assumes "0 \<le> n" "0 \<le> Height m" "0 \<le> YOffset m" "YOffset m \<le> maxYOffset m"
  shows "YOffset (vp_LineDown n m) = min (YOffset m + n) (maxYOffset m)"
proof (cases "lines m = []")
  case True
  with assms have "maxYOffset m = 0" by (simp add: maxYOffset_def)
  with True assms show ?thesis by (simp add: vp_LineDown_def)
next
  case False
  with assms show ?thesis
    by (auto simp add: vp_LineDown_def AtBottom_def YOffset_SetYOffset)
qed

lemma YOffset_vp_LineUp:
  assumes "0 \<le> n" "0 \<le> Height m" "0 \<le> YOffset m" "YOffset m \<le> maxYOffset m"
  shows "YOffset (vp_LineUp n m) = max (YOffset m - n) 0"
proof (cases "lines m = []")
  case True
  with assms have "maxYOffset m = 0" by (simp add: maxYOffset_def)
  with True assms show ?thesis by (simp add: vp_LineUp_def)
next
  case False
  with assms show ?thesis
    by (auto simp add: vp_LineUp_def AtTop_def YOffset_SetYOffset)
qed

lemma vp_LineDown_twice:
  assumes "YOffset m = 0"
  shows "vp_LineDown n (vp_LineDown n m) = vp_LineDown (2 * n) m"
  using assms maxYOffset_nonneg [of m]
  by (auto simp add: vp_LineDown_def AtBottom_def SetYOffset_def clamp_def min_def max_def)

lemma even_sdiv_two: "even (k::int) \<Longrightarrow> 2 * (k sdiv 2) = k"
  by (auto simp add: signed_divide_int_def sgn_if elim!: evenE)

lemma GotoBottom_eq: "GotoBottom m = m\<lparr>YOffset := maxYOffset m\<rparr>"
  using maxYOffset_nonneg [of m] by (simp add: GotoBottom_def SetYOffset_def clamp_def)

text \<open>The scroll offset is never negative in a reachable state.\<close>

lemma YOffset_nonneg_scroll:
  "0 \<le> YOffset m \<Longrightarrow> 0 \<le> YOffset (vp_LineDown n m)"
  "0 \<le> YOffset m \<Longrightarrow> 0 \<le> YOffset (vp_LineUp n m)"
  "0 \<le> YOffset m \<Longrightarrow> 0 \<le> YOffset (GotoTop m)"
  "0 \<le> YOffset (GotoBottom m)"
  "0 \<le> YOffset m \<Longrightarrow> 0 \<le> YOffset (vp_SetContent s m)"
  using maxYOffset_nonneg [of m] maxYOffset_nonneg [of "m\<lparr>lines := split_lines s\<rparr>"]
  by (simp_all add: vp_LineDown_def vp_LineUp_def GotoTop_def GotoBottom_eq YOffset_SetYOffset
        vp_SetContent_def Let_def)

lemma YOffset_nonneg_vp_Update:
  "0 \<le> YOffset m \<Longrightarrow> 0 \<le> YOffset (fst (vp_Update msg m))"
  by (cases msg) (simp_all add: vp_Update_def YOffset_nonneg_scroll)

lemma YOffset_nonneg_applyAlignment:
  "0 \<le> YOffset (viewport l) \<Longrightarrow> 0 \<le> YOffset (viewport (applyAlignment l))"
  by (simp add: applyAlignment_eq YOffset_nonneg_scroll)

lemma call_YOffset_nonneg:
  assumes "0 \<le> YOffset (viewport l)"
  shows "0 \<le> YOffset (viewport (call c l))"
proof (cases c)
  case (DoUpdate msg)
  show ?thesis
  proof (cases msg)
    case (WindowSizeMsg w h)
    with DoUpdate assms show ?thesis
      by (cases "Width (viewport l) = 0")
         (simp_all add: Update_resize_unsized Update_resize_sized Let_def
            YOffset_nonneg_applyAlignment vp_New_def)
  next
    case (KeyMsg k)
    with DoUpdate assms show ?thesis
      by (simp add: Update_key YOffset_nonneg_vp_Update)
  next
    case OtherMsg
    with DoUpdate assms show ?thesis
      by (simp add: Update_key YOffset_nonneg_vp_Update)
  qed
qed (use assms in \<open>simp_all add: setter_defs nav_defs SetContent_def SetVerticalAlignment_def
       Let_def YOffset_nonneg_applyAlignment YOffset_nonneg_scroll\<close>)

lemma run_YOffset_nonneg:
  "0 \<le> YOffset (viewport l) \<Longrightarrow> 0 \<le> YOffset (viewport (run cs l))"
  by (induction cs arbitrary: l) (simp_all add: call_YOffset_nonneg)

lemma reachable_YOffset_nonneg: "0 \<le> YOffset (viewport (run cs New))"
  by (rule run_YOffset_nonneg) (simp add: New_def)

text \<open>The scrolling methods of the layout, on the scroll offset.\<close>

lemma nav_clamped:
  assumes "0 \<le> Height (viewport l)" and "0 \<le> YOffset (viewport l)"
    and "YOffset (viewport l) \<le> maxYOffset (viewport l)"
  shows
    "YOffset (viewport (LineDown l)) = min (YOffset (viewport l) + 1) (maxYOffset (viewport l))"
    "YOffset (viewport (LineUp l)) = max (YOffset (viewport l) - 1) 0"
    "YOffset (viewport (HalfPageDown l)) =
       min (YOffset (viewport l) + Height (viewport l) div 2) (maxYOffset (viewport l))"
    "YOffset (viewport (HalfPageUp l)) =
       max (YOffset (viewport l) - Height (viewport l) div 2) 0"
    "YOffset (viewport (PageDown l)) =
       min (YOffset (viewport l) + Height (viewport l)) (maxYOffset (viewport l))"
    "YOffset (viewport (PageUp l)) = max (YOffset (viewport l) - Height (viewport l)) 0"
proof -
  have h: "0 \<le> Height (viewport l) div 2" using assms(1) by simp
  show "YOffset (viewport (LineDown l)) =
          min (YOffset (viewport l) + 1) (maxYOffset (viewport l))"
    using assms by (simp add: LineDown_def YOffset_vp_LineDown)
  show "YOffset (viewport (LineUp l)) = max (YOffset (viewport l) - 1) 0"
    using assms by (simp add: LineUp_def YOffset_vp_LineUp)
  show "YOffset (viewport (HalfPageDown l)) =
          min (YOffset (viewport l) + Height (viewport l) div 2) (maxYOffset (viewport l))"
    using assms h by (simp add: HalfPageDown_def Let_def sdiv_two_nonneg YOffset_vp_LineDown)
  show "YOffset (viewport (HalfPageUp l)) =
          max (YOffset (viewport l) - Height (viewport l) div 2) 0"
    using assms h by (simp add: HalfPageUp_def Let_def sdiv_two_nonneg YOffset_vp_LineUp)
  show "YOffset (viewport (PageDown l)) =
          min (YOffset (viewport l) + Height (viewport l)) (maxYOffset (viewport l))"
    using assms by (simp add: PageDown_def YOffset_vp_LineDown)
  show "YOffset (viewport (PageUp l)) = max (YOffset (viewport l) - Height (viewport l)) 0"
    using assms by (simp add: PageUp_def YOffset_vp_LineUp)
qed

lemma two_half_pages:
  "even (Height (viewport l)) \<Longrightarrow> YOffset (viewport l) = 0 \<Longrightarrow>
   HalfPageDown (HalfPageDown l) = PageDown l"
  by (simp add: HalfPageDown_def PageDown_def Let_def vp_scroll_fields vp_LineDown_twice
        even_sdiv_two)

lemma half_page_height_one:
  "Height (viewport l) = 1 \<Longrightarrow> HalfPageDown l = l \<and> HalfPageUp l = l"
  by (simp add: HalfPageDown_def HalfPageUp_def Let_def signed_divide_int_def
        vp_LineDown_def vp_LineUp_def)





section \<open>The alignment algorithm\<close>

text \<open>
  Claim C1.  On a sized layout with content \<open>C\<close> and viewport height \<open>H\<close>: when
  \<open>lineCount C < H\<close>, \<^verbatim>\<open>applyAlignment\<close> sets the viewport content to \<open>C\<close> for Top, to
  \<open>(H - lineCount C) div 2\<close> blank lines followed by \<open>C\<close> for Center, and to
  \<open>H - lineCount C\<close> blank lines followed by \<open>C\<close> for Bottom; when \<open>lineCount C \<ge> H\<close>
  it sets the viewport content to \<open>C\<close>, whatever the alignment mode.  For the padded modes
  the buffer of the viewport is that many empty lines followed by the lines of \<open>C\<close>.
\<close>

theorem alignment_padding:
  assumes "Width (viewport l) \<noteq> 0"
  shows
    "(lineCount (viewportContent l) < Height (viewport l) \<longrightarrow>
        (verticalAlign l = AlignTop \<longrightarrow>
           applyAlignment l = l\<lparr>viewport := vp_SetContent (viewportContent l) (viewport l)\<rparr>) \<and>
        (verticalAlign l = AlignCenter \<longrightarrow>
           applyAlignment l =
             l\<lparr>viewport :=
                 vp_SetContent
                   (blank_lines ((Height (viewport l) - lineCount (viewportContent l)) div 2)
                      @ viewportContent l)
                   (viewport l)\<rparr> \<and>
           lines (viewport (applyAlignment l)) =
             replicate (nat ((Height (viewport l) - lineCount (viewportContent l)) div 2)) []
               @ split_lines (viewportContent l)) \<and>
        (verticalAlign l = AlignBottom \<longrightarrow>
           applyAlignment l =
             l\<lparr>viewport :=
                 vp_SetContent
                   (blank_lines (Height (viewport l) - lineCount (viewportContent l))
                      @ viewportContent l)
                   (viewport l)\<rparr> \<and>
           lines (viewport (applyAlignment l)) =
             replicate (nat (Height (viewport l) - lineCount (viewportContent l))) []
               @ split_lines (viewportContent l))) \<and>
     (Height (viewport l) \<le> lineCount (viewportContent l) \<longrightarrow>
        applyAlignment l = l\<lparr>viewport := vp_SetContent (viewportContent l) (viewport l)\<rparr>)"
  using assms
  by (simp add: applyAlignment_eq spec_aligned_def vp_SetContent_fields split_lines_blank)

text \<open>
  The scenarios of the specification: height 10 and four lines give three leading blank
  lines for Center and six for Bottom; height 3 gives the content itself.
\<close>

theorem alignment_padding_witness:
  "lines (viewport (applyAlignment (sized_layout AlignTop 12 four_lines))) =
     [''a'', ''b'', ''c'', ''d''] \<and>
   lines (viewport (applyAlignment (sized_layout AlignCenter 12 four_lines))) =
     [[], [], [], ''a'', ''b'', ''c'', ''d''] \<and>
   lines (viewport (applyAlignment (sized_layout AlignBottom 12 four_lines))) =
     [[], [], [], [], [], [], ''a'', ''b'', ''c'', ''d''] \<and>
   lines (viewport (applyAlignment (sized_layout AlignBottom 5 four_lines))) =
     [''a'', ''b'', ''c'', ''d'']"
proof -
  have w: "Width (viewport (sized_layout a h four_lines)) \<noteq> 0" for a h
    by (simp add: sized_layout_fields)
  have r: "replicate 3 [] = [[], [], []::string]"
          "replicate 6 [] = [[], [], [], [], [], []::string]"
    by (simp_all add: numeral_eq_Suc)
  show ?thesis
    using alignment_padding [OF w, of AlignTop 12]
      alignment_padding [OF w, of AlignCenter 12]
      alignment_padding [OF w, of AlignBottom 12]
      alignment_padding [OF w, of AlignBottom 5]
    by (simp add: sized_layout_fields four_lines_facts r vp_SetContent_fields split_lines_blank)
qed

text \<open>
  Claim C5.  Alignment is idempotent and a function of the raw content, the alignment
  mode and the viewport height: running \<^verbatim>\<open>applyAlignment\<close> twice gives the same layout
  as running it once (the whole state, so also the same viewport content); it leaves
  the raw content \<^verbatim>\<open>viewportContent\<close> as it is and pads that, not the buffer of the
  viewport; and on a sized layout the buffer it leaves is the aligned content that the
  specification describes for these three inputs.
\<close>

theorem alignment_idempotent:
  "applyAlignment (applyAlignment l) = applyAlignment l \<and>
   viewportContent (applyAlignment l) = viewportContent l \<and>
   (Width (viewport l) \<noteq> 0 \<longrightarrow>
      lines (viewport (applyAlignment l)) =
        split_lines (spec_aligned (verticalAlign l) (Height (viewport l)) (viewportContent l)))"
  by (simp add: applyAlignment_eq vp_SetContent_fields vp_SetContent_idem)

theorem alignment_idempotent_witness:
  "Width (viewport (sized_layout AlignCenter 12 four_lines)) \<noteq> 0 \<and>
   applyAlignment (applyAlignment (sized_layout AlignCenter 12 four_lines)) =
     applyAlignment (sized_layout AlignCenter 12 four_lines) \<and>
   lines (viewport (applyAlignment (sized_layout AlignCenter 12 four_lines))) =
     split_lines (spec_aligned AlignCenter 10 four_lines)"
  using alignment_idempotent [of "sized_layout AlignCenter 12 four_lines"]
  by (simp add: sized_layout_fields)

section \<open>Rendering\<close>

text \<open>
  Claim C9.  With \<^verbatim>\<open>windowHeight\<close> equal to 0, \<^verbatim>\<open>View\<close> returns the placeholder
  \<^verbatim>\<open>Initializing...\<close>; with \<^verbatim>\<open>windowHeight\<close> non-zero it returns the vertical join,
  at position Left, of the rendered header, the view of the viewport and the rendered
  footer.  Every state reached from \<^verbatim>\<open>New\<close> without a resize event has
  \<^verbatim>\<open>windowHeight\<close> 0, so it renders the placeholder.
\<close>

theorem View_placeholder_or_stack:
  "(windowHeight l = 0 \<longrightarrow> View render vp_View joinVertical l = ''Initializing...'') \<and>
   (windowHeight l \<noteq> 0 \<longrightarrow>
      View render vp_View joinVertical l =
        joinVertical Left
          [render (headerStyle l) (header l), vp_View (viewport l),
           render (footerStyle l) (footer l)]) \<and>
   (list_all (\<lambda>c. \<not> is_resize c) cs \<longrightarrow>
      View render vp_View joinVertical (run cs New) = ''Initializing...'')"
proof -
  have "windowHeight New = 0" by (simp add: New_def)
  then show ?thesis by (simp add: View_def Let_def run_windowHeight)
qed

theorem View_placeholder_or_stack_witness:
  "windowHeight New = 0 \<and>
   View plain_render plain_view plain_join New = ''Initializing...'' \<and>
   windowHeight (sized_layout AlignTop 5 four_lines) \<noteq> 0 \<and>
   View plain_render plain_view plain_join (sized_layout AlignTop 5 four_lines) =
     ''HeaderabcdFooter'' \<and>
   list_all (\<lambda>c. \<not> is_resize c) [DoSetContent four_lines] \<and>
   View plain_render plain_view plain_join (run [DoSetContent four_lines] New) =
     ''Initializing...''"
proof -
  have n: "windowHeight New = 0" by (simp add: New_def)
  have a: "spec_aligned AlignTop 3 four_lines = four_lines"
    by (simp add: spec_aligned_def four_lines_facts)
  have r: "list_all (\<lambda>c. \<not> is_resize c) [DoSetContent four_lines]" by simp
  show ?thesis
    using View_placeholder_or_stack [of New plain_render plain_view plain_join
        "[DoSetContent four_lines]"]
      View_placeholder_or_stack [of "sized_layout AlignTop 5 four_lines"
        plain_render plain_view plain_join "[]"]
    by (simp add: n r sized_layout_more a four_lines_facts plain_render_def plain_view_def
          plain_join_def del: run.simps)
qed

section \<open>The first resize\<close>

text \<open>
  Claim C10.  When the empty string is set on an unsized layout, the first resize event
  does not run the alignment: the new viewport is the one \<^verbatim>\<open>viewport.New\<close> built, with
  an empty buffer, whatever the alignment mode.
\<close>

theorem empty_pending_not_aligned:
  assumes "Width (viewport l) = 0"
  shows "viewport (fst (Update (WindowSizeMsg w h) (SetVerticalAlignment a (SetContent [] l)))) =
           vp_New w (h - headerHeight l - footerHeight l) \<and>
         lines (viewport (fst (Update (WindowSizeMsg w h)
                  (SetVerticalAlignment a (SetContent [] l))))) = []"
  using assms
  by (simp add: SetContent_def SetVerticalAlignment_def Let_def Update_resize_unsized vp_New_def)

text \<open>
  For Center and a viewport of height 10 the aligned empty content would be four blank
  lines in front of the empty line.
\<close>

theorem empty_pending_not_aligned_witness:
  "Width (viewport New) = 0 \<and>
   viewport (fst (Update (WindowSizeMsg 80 12)
      (SetVerticalAlignment AlignCenter (SetContent [] New)))) = vp_New 80 10 \<and>
   split_lines (spec_aligned AlignCenter 10 []) = [[], [], [], [], []]"
proof -
  have n: "Width (viewport New) = 0" "headerHeight New = 1" "footerHeight New = 1"
    by (simp_all add: New_def)
  have s: "split_lines (spec_aligned AlignCenter 10 []) = [[], [], [], [], []]"
    by (simp add: spec_aligned_def lineCount_def count_newlines_def blank_lines_def
          numeral_eq_Suc newline_def)
  show ?thesis
    using empty_pending_not_aligned [OF n(1), of 80 12 AlignCenter]
    by (simp add: n s)
qed

section \<open>Position queries\<close>

text \<open>
  Claim C8.  \<^verbatim>\<open>GetViewportYPosition\<close> reads the field \<^verbatim>\<open>YPosition\<close> of the viewport,
  which is not the scroll offset \<^verbatim>\<open>YOffset\<close> that \<^verbatim>\<open>AtTop\<close> and \<^verbatim>\<open>AtBottom\<close> compare
  and that scrolling moves.  After one \<^verbatim>\<open>LineDown\<close> on a four-line content in a
  viewport of height 3 the scroll offset is 1 and the viewport is not at the top, yet
  \<^verbatim>\<open>GetViewportYPosition\<close> returns 0; and after \<^verbatim>\<open>SetViewportYPosition 7\<close> on a new
  layout the viewport is at the top, yet \<^verbatim>\<open>GetViewportYPosition\<close> returns 7.
\<close>

theorem yposition_is_not_scroll_offset:
  "GetViewportYPosition scrolled_once = 0 \<and>
   YOffset (viewport scrolled_once) = 1 \<and>
   \<not> ViewportAtTop scrolled_once \<and>
   GetViewportYPosition (SetViewportYPosition 7 New) = 7 \<and>
   ViewportAtTop (SetViewportYPosition 7 New)"
proof -
  have u: "fst (Update (WindowSizeMsg 80 5) (SetContent four_lines New)) =
             (SetContent four_lines New)
               \<lparr>windowWidth := 80, windowHeight := 5,
                headerStyle := (headerStyle New)\<lparr>style_width := 80\<rparr>,
                footerStyle := (footerStyle New)\<lparr>style_width := 80\<rparr>,
                viewport := vp_SetContent four_lines (vp_New 80 3),
                pendingContent := []\<rparr>"
    by (simp add: Update_resize_unsized SetContent_def New_def Let_def applyAlignment_eq
          vp_New_def spec_aligned_def four_lines_facts four_lines_def)
  have v: "vp_SetContent four_lines (vp_New 80 3) =
             \<lparr>Width = 80, Height = 3, YOffset = 0, YPosition = 0,
              lines = [''a'', ''b'', ''c'', ''d'']\<rparr>"
    by (simp add: vp_SetContent_def vp_New_def Let_def four_lines_facts)
  have w: "viewport (fst (Update (WindowSizeMsg 80 5) (SetContent four_lines New))) =
             \<lparr>Width = 80, Height = 3, YOffset = 0, YPosition = 0,
              lines = [''a'', ''b'', ''c'', ''d'']\<rparr>"
    by (simp add: u v)
  have "viewport scrolled_once =
          \<lparr>Width = 80, Height = 3, YOffset = 1, YPosition = 0,
           lines = [''a'', ''b'', ''c'', ''d'']\<rparr>"
    by (simp add: scrolled_once_def LineDown_def w vp_LineDown_def AtBottom_def
          maxYOffset_def SetYOffset_def clamp_def)
  moreover have "viewport (SetViewportYPosition 7 New) =
          \<lparr>Width = 0, Height = 0, YOffset = 0, YPosition = 7, lines = []\<rparr>"
    by (simp add: SetViewportYPosition_def New_def)
  ultimately show ?thesis
    by (simp add: GetViewportYPosition_def ViewportAtTop_def AtTop_def)
qed

section \<open>Sizing\<close>




text \<open>
  Claim C4, as amended.  In every state reached from \<^verbatim>\<open>New\<close> by calls whose resize
  events have a non-zero width, if the layout is sized (viewport width positive): when the
  raw content is not empty, the buffer of the viewport is the alignment of the current raw
  content for the current mode and viewport height; when the raw content is empty, the
  buffer is either empty (the new viewport, never set) or the alignment of the empty
  content for the current height and some mode, possibly not the current one.  The buffer
  is recomputed from the raw content, for every content and also the empty one, by
  \<^verbatim>\<open>SetContent\<close> on a layout with a viewport and by every resize event of non-zero width
  on a layout with a viewport; \<^verbatim>\<open>SetVerticalAlignment\<close> recomputes it on a sized
  layout with a non-empty raw content and leaves the viewport as it is when the raw
  content is empty; and the first resize leaves the buffer of the new viewport empty when
  the pending content is empty.
\<close>

theorem content_is_aligned_raw:
  "(list_all resize_nonzero cs \<and> Width (viewport (run cs New)) > 0 \<longrightarrow>
      (viewportContent (run cs New) \<noteq> [] \<longrightarrow>
         lines (viewport (run cs New)) =
           split_lines (spec_aligned (verticalAlign (run cs New))
             (Height (viewport (run cs New))) (viewportContent (run cs New)))) \<and>
      (viewportContent (run cs New) = [] \<longrightarrow>
         lines (viewport (run cs New)) = [] \<or>
         (\<exists>a. lines (viewport (run cs New)) =
                split_lines (spec_aligned a (Height (viewport (run cs New))) [])))) \<and>
   (Width (viewport l) \<noteq> 0 \<longrightarrow>
      viewportContent (SetContent c l) = c \<and>
      lines (viewport (SetContent c l)) =
        split_lines (spec_aligned (verticalAlign l) (Height (viewport l)) c)) \<and>
   (Width (viewport l) \<noteq> 0 \<and> w \<noteq> 0 \<longrightarrow>
      lines (viewport (fst (Update (WindowSizeMsg w h) l))) =
        split_lines (spec_aligned (verticalAlign l) (h - headerHeight l - footerHeight l)
          (viewportContent l))) \<and>
   (Width (viewport l) > 0 \<and> viewportContent l \<noteq> [] \<longrightarrow>
      lines (viewport (SetVerticalAlignment a l)) =
        split_lines (spec_aligned a (Height (viewport l)) (viewportContent l))) \<and>
   (viewportContent l = [] \<longrightarrow> viewport (SetVerticalAlignment a l) = viewport l) \<and>
   (Width (viewport l) = 0 \<and> pendingContent l = [] \<longrightarrow>
      viewport (fst (Update (WindowSizeMsg w h) l)) =
        vp_New w (h - headerHeight l - footerHeight l))"
proof -
  have inv: "content_aligned (run cs New)" if "list_all resize_nonzero cs"
    using that by (rule run_content_aligned) (rule content_aligned_New)
  have a: "list_all resize_nonzero cs \<and> Width (viewport (run cs New)) > 0 \<longrightarrow>
      (viewportContent (run cs New) \<noteq> [] \<longrightarrow>
         lines (viewport (run cs New)) =
           split_lines (spec_aligned (verticalAlign (run cs New))
             (Height (viewport (run cs New))) (viewportContent (run cs New)))) \<and>
      (viewportContent (run cs New) = [] \<longrightarrow>
         lines (viewport (run cs New)) = [] \<or>
         (\<exists>a. lines (viewport (run cs New)) =
                split_lines (spec_aligned a (Height (viewport (run cs New))) [])))"
    using inv by (auto simp add: content_aligned_def)
  have b: "Width (viewport l) \<noteq> 0 \<longrightarrow>
      viewportContent (SetContent c l) = c \<and>
      lines (viewport (SetContent c l)) =
        split_lines (spec_aligned (verticalAlign l) (Height (viewport l)) c)"
    by (simp add: SetContent_def Let_def applyAlignment_eq vp_SetContent_fields)
  have c: "Width (viewport l) \<noteq> 0 \<and> w \<noteq> 0 \<longrightarrow>
      lines (viewport (fst (Update (WindowSizeMsg w h) l))) =
        split_lines (spec_aligned (verticalAlign l) (h - headerHeight l - footerHeight l)
          (viewportContent l))"
    by (simp add: Update_resize_sized applyAlignment_eq vp_SetContent_fields)
  have d: "Width (viewport l) > 0 \<and> viewportContent l \<noteq> [] \<longrightarrow>
      lines (viewport (SetVerticalAlignment a l)) =
        split_lines (spec_aligned a (Height (viewport l)) (viewportContent l))"
    by (simp add: SetVerticalAlignment_def Let_def applyAlignment_eq vp_SetContent_fields)
  have e: "viewportContent l = [] \<longrightarrow> viewport (SetVerticalAlignment a l) = viewport l"
    by (simp add: SetVerticalAlignment_def Let_def)
  have f: "Width (viewport l) = 0 \<and> pendingContent l = [] \<longrightarrow>
      viewport (fst (Update (WindowSizeMsg w h) l)) =
        vp_New w (h - headerHeight l - footerHeight l)"
    by (simp add: Update_resize_unsized Let_def)
  from a b c d e f show ?thesis by blast
qed

theorem content_is_aligned_raw_witness:
  "list_all resize_nonzero realigned_history \<and>
   Width (viewport (run realigned_history New)) > 0 \<and>
   viewportContent (run realigned_history New) \<noteq> [] \<and>
   lines (viewport (run realigned_history New)) =
     [[], [], [], ''a'', ''b'', ''c'', ''d''] \<and>
   list_all resize_nonzero stale_history \<and>
   Width (viewport (run stale_history New)) > 0 \<and>
   viewportContent (run stale_history New) = [] \<and>
   (lines (viewport (run stale_history New)) = [] \<or>
    (\<exists>a. lines (viewport (run stale_history New)) = split_lines (spec_aligned a 10 []))) \<and>
   Width (viewport (sized_layout AlignCenter 12 four_lines)) \<noteq> 0 \<and>
   lines (viewport (SetContent [] (sized_layout AlignCenter 12 four_lines))) =
     [[], [], [], [], []] \<and>
   lines (viewport (fst (Update (WindowSizeMsg 80 9) (sized_layout AlignCenter 12 four_lines)))) =
     [[], ''a'', ''b'', ''c'', ''d''] \<and>
   lines (viewport (SetVerticalAlignment AlignBottom (sized_layout AlignCenter 12 four_lines))) =
     [[], [], [], [], [], [], ''a'', ''b'', ''c'', ''d''] \<and>
   viewportContent New = [] \<and>
   viewport (SetVerticalAlignment AlignCenter New) = viewport New \<and>
   Width (viewport New) = 0 \<and> pendingContent New = [] \<and>
   viewport (fst (Update (WindowSizeMsg 80 12) New)) = vp_New 80 10"
proof -
  have h1: "list_all resize_nonzero realigned_history"
           "Width (viewport (run realigned_history New)) > 0"
           "viewportContent (run realigned_history New) = four_lines"
           "verticalAlign (run realigned_history New) = AlignBottom"
           "Height (viewport (run realigned_history New)) = 7"
    by code_simp+
  have h2: "list_all resize_nonzero stale_history"
           "Width (viewport (run stale_history New)) > 0"
           "viewportContent (run stale_history New) = []"
           "Height (viewport (run stale_history New)) = 10"
    by code_simp+
  have h3: "Width (viewport (sized_layout AlignCenter 12 four_lines)) = 80"
           "Height (viewport (sized_layout AlignCenter 12 four_lines)) = 10"
           "verticalAlign (sized_layout AlignCenter 12 four_lines) = AlignCenter"
           "viewportContent (sized_layout AlignCenter 12 four_lines) = four_lines"
           "headerHeight (sized_layout AlignCenter 12 four_lines) = 1"
           "footerHeight (sized_layout AlignCenter 12 four_lines) = 1"
    by code_simp+
  have h4: "viewportContent New = []" "Width (viewport New) = 0" "pendingContent New = []"
           "headerHeight New = 1" "footerHeight New = 1"
    by (simp_all add: New_def)
  have v: "split_lines (spec_aligned AlignBottom 7 four_lines) =
             [[], [], [], ''a'', ''b'', ''c'', ''d'']"
          "split_lines (spec_aligned AlignCenter 10 []) = [[], [], [], [], []]"
          "split_lines (spec_aligned AlignCenter 7 four_lines) = [[], ''a'', ''b'', ''c'', ''d'']"
          "split_lines (spec_aligned AlignBottom 10 four_lines) =
             [[], [], [], [], [], [], ''a'', ''b'', ''c'', ''d'']"
          "four_lines \<noteq> []"
    by code_simp+
  show ?thesis
    using content_is_aligned_raw [of realigned_history "sized_layout AlignCenter 12 four_lines"
        "[]" 80 9 AlignBottom]
      content_is_aligned_raw [of stale_history New "[]" 80 12 AlignCenter]
    by (simp add: h1 h2 h3 h4 v)
qed
text \<open>
  Claim C4 as stated fails.  With the empty raw content, \<^verbatim>\<open>SetVerticalAlignment\<close> does
  not realign (its guard asks for a non-empty content): the buffer stays the one empty
  line although the Center alignment of the empty content for height 10 is five empty
  lines.  And after a resize to width 0 the next resize builds a new viewport without
  content, although the raw content has four lines.
\<close>

theorem stale_alignment_counterexample:
  "Width (viewport empty_recentered) > 0 \<and>
   viewportContent empty_recentered = [] \<and>
   lines (viewport empty_recentered) = [[]] \<and>
   split_lines (spec_aligned (verticalAlign empty_recentered)
      (Height (viewport empty_recentered)) (viewportContent empty_recentered)) =
     [[], [], [], [], []] \<and>
   Width (viewport zero_then_wide) > 0 \<and>
   viewportContent zero_then_wide = four_lines \<and>
   lines (viewport zero_then_wide) = [] \<and>
   split_lines (spec_aligned (verticalAlign zero_then_wide)
      (Height (viewport zero_then_wide)) (viewportContent zero_then_wide)) =
     [''a'', ''b'', ''c'', ''d'']"
  by code_simp

text \<open>
  Claim C2, as amended.  On an unsized layout \<^verbatim>\<open>SetContent\<close> leaves the viewport as it
  is and stores the content as raw and as pending content, for every content; calls that
  are neither a resize event nor \<^verbatim>\<open>SetContent\<close> keep the layout unsized and keep both.
  If the content is not empty, the first following resize event, if its width is not 0,
  builds the viewport for the new dimensions and sets its content to the alignment of
  exactly that content for the alignment mode and the band heights current at the resize;
  it keeps the content as raw content and clears the pending content, which then stays
  empty along every further history of calls whose resize events have a non-zero width.
\<close>

theorem pending_content_applied_on_first_resize:
  assumes "Width (viewport l) = 0" and "list_all keeps_pending mid"
  shows
    "viewport (SetContent c l) = viewport l \<and>
     pendingContent (SetContent c l) = c \<and>
     viewportContent (SetContent c l) = c \<and>
     Width (viewport (run mid (SetContent c l))) = 0 \<and>
     pendingContent (run mid (SetContent c l)) = c \<and>
     viewportContent (run mid (SetContent c l)) = c \<and>
     (c \<noteq> [] \<and> w \<noteq> 0 \<longrightarrow>
        viewport (fst (Update (WindowSizeMsg w h) (run mid (SetContent c l)))) =
          vp_SetContent
            (spec_aligned (verticalAlign (run mid (SetContent c l)))
               (h - headerHeight (run mid (SetContent c l))
                  - footerHeight (run mid (SetContent c l))) c)
            (vp_New w
               (h - headerHeight (run mid (SetContent c l))
                  - footerHeight (run mid (SetContent c l)))) \<and>
        viewportContent (fst (Update (WindowSizeMsg w h) (run mid (SetContent c l)))) = c \<and>
        pendingContent (fst (Update (WindowSizeMsg w h) (run mid (SetContent c l)))) = [] \<and>
        (list_all resize_nonzero cs \<longrightarrow>
           pendingContent
             (run cs (fst (Update (WindowSizeMsg w h) (run mid (SetContent c l))))) = []))"
proof -
  let ?l1 = "run mid (SetContent c l)"
  let ?l2 = "fst (Update (WindowSizeMsg w h) ?l1)"
  have a: "viewport (SetContent c l) = viewport l" "pendingContent (SetContent c l) = c"
          "viewportContent (SetContent c l) = c"
    using assms(1) by (simp_all add: SetContent_def Let_def)
  have "Width (viewport (SetContent c l)) = 0" using assms(1) a(1) by simp
  from run_keeps_pending [OF assms(2) this]
  have u: "Width (viewport ?l1) = 0" "pendingContent ?l1 = c" "viewportContent ?l1 = c"
    by (simp_all add: a)
  have b: "viewport ?l2 =
             vp_SetContent
               (spec_aligned (verticalAlign ?l1) (h - headerHeight ?l1 - footerHeight ?l1) c)
               (vp_New w (h - headerHeight ?l1 - footerHeight ?l1)) \<and>
           viewportContent ?l2 = c \<and> pendingContent ?l2 = [] \<and>
           (list_all resize_nonzero cs \<longrightarrow> pendingContent (run cs ?l2) = [])"
    if c: "c \<noteq> []" and w: "w \<noteq> 0"
  proof -
    have v: "viewport ?l2 =
               vp_SetContent
                 (spec_aligned (verticalAlign ?l1) (h - headerHeight ?l1 - footerHeight ?l1) c)
                 (vp_New w (h - headerHeight ?l1 - footerHeight ?l1))"
            "viewportContent ?l2 = c" "pendingContent ?l2 = []"
      using c w
      by (simp_all add: Update_resize_unsized [OF u(1)] u Let_def applyAlignment_eq vp_New_def)
    have "pending_consumed ?l2"
      using w by (simp add: pending_consumed_def v vp_SetContent_fields vp_New_def)
    then have "list_all resize_nonzero cs \<longrightarrow> pendingContent (run cs ?l2) = []"
      using run_pending_consumed [of cs ?l2] by (simp add: pending_consumed_def)
    with v show ?thesis by simp
  qed
  from a u b show ?thesis by blast
qed

theorem pending_content_applied_on_first_resize_witness:
  "Width (viewport New) = 0 \<and> list_all keeps_pending between_history \<and>
   four_lines \<noteq> [] \<and> (80::int) \<noteq> 0 \<and> list_all resize_nonzero later_history \<and>
   viewport (SetContent four_lines New) = viewport New \<and>
   pendingContent (run between_history (SetContent four_lines New)) = four_lines \<and>
   viewport (fst (Update (WindowSizeMsg 80 14)
      (run between_history (SetContent four_lines New)))) =
     \<lparr>Width = 80, Height = 10, YOffset = 0, YPosition = 0,
      lines = [[], [], [], ''a'', ''b'', ''c'', ''d'']\<rparr> \<and>
   pendingContent (fst (Update (WindowSizeMsg 80 14)
      (run between_history (SetContent four_lines New)))) = [] \<and>
   pendingContent (run later_history (fst (Update (WindowSizeMsg 80 14)
      (run between_history (SetContent four_lines New))))) = []"
proof -
  have h: "Width (viewport New) = 0" "list_all keeps_pending between_history"
    by code_simp+
  have k: "four_lines \<noteq> []" "(80::int) \<noteq> 0" "list_all resize_nonzero later_history"
    by code_simp+
  have f: "verticalAlign (run between_history (SetContent four_lines New)) = AlignCenter"
          "headerHeight (run between_history (SetContent four_lines New)) = 3"
          "footerHeight (run between_history (SetContent four_lines New)) = 1"
    by code_simp+
  have v: "vp_SetContent (spec_aligned AlignCenter 10 four_lines) (vp_New 80 10) =
     \<lparr>Width = 80, Height = 10, YOffset = 0, YPosition = 0,
      lines = [[], [], [], ''a'', ''b'', ''c'', ''d'']\<rparr>"
    by code_simp
  show ?thesis
    using pending_content_applied_on_first_resize [OF h, of four_lines 80 14 later_history] h k
    by (simp add: f v)
qed

text \<open>
  Claim C2 as stated fails.  For the empty content and the mode Center the first resize
  leaves the buffer of the new viewport empty, where the aligned content for height 10 is
  five empty lines.  A first resize of width 0 clears the pending content without
  setting it, so that the viewport built by the next resize has no content either.  And
  after a later resize to width 0, \<^verbatim>\<open>SetContent\<close> fills the pending content again.
\<close>

theorem pending_content_counterexample:
  "lines (viewport empty_first_resize) = [] \<and>
   verticalAlign empty_first_resize = AlignCenter \<and>
   Height (viewport empty_first_resize) = 10 \<and>
   split_lines (spec_aligned AlignCenter 10 []) = [[], [], [], [], []] \<and>
   lines (viewport zero_width_resize) = [] \<and>
   pendingContent zero_width_resize = [] \<and>
   lines (viewport (fst (Update (WindowSizeMsg 80 12) zero_width_resize))) = [] \<and>
   pendingContent (run refill_history New) = ''x''"
  by code_simp

section \<open>Scrolling\<close>

text \<open>
  Claim C6, as amended.  In every reachable state with a viewport height \<open>H \<ge> 0\<close> and a
  scroll offset that is not beyond the maximum offset, \<^verbatim>\<open>HalfPageDown\<close> and
  \<^verbatim>\<open>HalfPageUp\<close> move the offset by \<open>H div 2\<close> lines and \<^verbatim>\<open>PageDown\<close> and \<^verbatim>\<open>PageUp\<close> by
  \<open>H\<close> lines, clamped at the maximum offset and at 0: the move is exactly that many lines
  whenever that many lines remain in the direction of the scroll.  In every reachable
  state with an even \<open>H\<close> and the offset 0, two \<^verbatim>\<open>HalfPageDown\<close> give the same state as
  one \<^verbatim>\<open>PageDown\<close>.  With \<open>H = 1\<close> the half-page scrolls change nothing.
\<close>

theorem page_scroll_distances:
  "(0 \<le> Height (viewport (run cs New)) \<and>
    YOffset (viewport (run cs New)) \<le> maxYOffset (viewport (run cs New)) \<longrightarrow>
      YOffset (viewport (HalfPageDown (run cs New))) =
        min (YOffset (viewport (run cs New)) + Height (viewport (run cs New)) div 2)
          (maxYOffset (viewport (run cs New))) \<and>
      YOffset (viewport (HalfPageUp (run cs New))) =
        max (YOffset (viewport (run cs New)) - Height (viewport (run cs New)) div 2) 0 \<and>
      YOffset (viewport (PageDown (run cs New))) =
        min (YOffset (viewport (run cs New)) + Height (viewport (run cs New)))
          (maxYOffset (viewport (run cs New))) \<and>
      YOffset (viewport (PageUp (run cs New))) =
        max (YOffset (viewport (run cs New)) - Height (viewport (run cs New))) 0 \<and>
      (YOffset (viewport (run cs New)) + Height (viewport (run cs New)) div 2
         \<le> maxYOffset (viewport (run cs New)) \<longrightarrow>
       YOffset (viewport (HalfPageDown (run cs New))) =
         YOffset (viewport (run cs New)) + Height (viewport (run cs New)) div 2) \<and>
      (Height (viewport (run cs New)) div 2 \<le> YOffset (viewport (run cs New)) \<longrightarrow>
       YOffset (viewport (HalfPageUp (run cs New))) =
         YOffset (viewport (run cs New)) - Height (viewport (run cs New)) div 2) \<and>
      (YOffset (viewport (run cs New)) + Height (viewport (run cs New))
         \<le> maxYOffset (viewport (run cs New)) \<longrightarrow>
       YOffset (viewport (PageDown (run cs New))) =
         YOffset (viewport (run cs New)) + Height (viewport (run cs New))) \<and>
      (Height (viewport (run cs New)) \<le> YOffset (viewport (run cs New)) \<longrightarrow>
       YOffset (viewport (PageUp (run cs New))) =
         YOffset (viewport (run cs New)) - Height (viewport (run cs New)))) \<and>
   (even (Height (viewport (run cs New))) \<and> YOffset (viewport (run cs New)) = 0 \<longrightarrow>
      HalfPageDown (HalfPageDown (run cs New)) = PageDown (run cs New)) \<and>
   (Height (viewport (run cs New)) = 1 \<longrightarrow>
      HalfPageDown (run cs New) = run cs New \<and> HalfPageUp (run cs New) = run cs New)"
proof -
  let ?l = "run cs New"
  have n: "0 \<le> YOffset (viewport ?l)" by (rule reachable_YOffset_nonneg)
  have c: "YOffset (viewport (HalfPageDown ?l)) =
             min (YOffset (viewport ?l) + Height (viewport ?l) div 2) (maxYOffset (viewport ?l)) \<and>
           YOffset (viewport (HalfPageUp ?l)) =
             max (YOffset (viewport ?l) - Height (viewport ?l) div 2) 0 \<and>
           YOffset (viewport (PageDown ?l)) =
             min (YOffset (viewport ?l) + Height (viewport ?l)) (maxYOffset (viewport ?l)) \<and>
           YOffset (viewport (PageUp ?l)) =
             max (YOffset (viewport ?l) - Height (viewport ?l)) 0"
    if "0 \<le> Height (viewport ?l)" "YOffset (viewport ?l) \<le> maxYOffset (viewport ?l)"
    using nav_clamped [OF that(1) n that(2)] by simp
  show ?thesis
    using c two_half_pages [of ?l] half_page_height_one [of ?l]
    by (simp add: min_def max_def)
qed

theorem page_scroll_distances_witness:
  "0 \<le> Height (viewport (run (top_history 6) New)) \<and>
   YOffset (viewport (run (top_history 6) New)) \<le> maxYOffset (viewport (run (top_history 6) New)) \<and>
   even (Height (viewport (run (top_history 6) New))) \<and>
   YOffset (viewport (run (top_history 6) New)) = 0 \<and>
   YOffset (viewport (HalfPageDown (run (top_history 6) New))) = 2 \<and>
   YOffset (viewport (PageDown (run (top_history 6) New))) = 4 \<and>
   HalfPageDown (HalfPageDown (run (top_history 6) New)) = PageDown (run (top_history 6) New) \<and>
   YOffset (viewport (run middle_history New)) = 4 \<and>
   YOffset (viewport (HalfPageUp (run middle_history New))) = 2 \<and>
   YOffset (viewport (PageUp (run middle_history New))) = 0 \<and>
   Height (viewport (run (top_history 3) New)) = 1 \<and>
   HalfPageDown (run (top_history 3) New) = run (top_history 3) New \<and>
   HalfPageUp (run (top_history 3) New) = run (top_history 3) New"
proof -
  have f: "Height (viewport (run (top_history 6) New)) = 4"
          "YOffset (viewport (run (top_history 6) New)) = 0"
          "maxYOffset (viewport (run (top_history 6) New)) = 8"
          "Height (viewport (run middle_history New)) = 4"
          "YOffset (viewport (run middle_history New)) = 4"
          "maxYOffset (viewport (run middle_history New)) = 8"
          "Height (viewport (run (top_history 3) New)) = 1"
    by code_simp+
  show ?thesis
    using page_scroll_distances [of "top_history 6"] page_scroll_distances [of middle_history]
      page_scroll_distances [of "top_history 3"]
    by (simp add: f)
qed

text \<open>
  Claim C6 as stated fails.  After the content shrinks from twelve to nine lines at the
  bottom, the layout is sized with height 4, offset 8 and maximum offset 5, and
  \<^verbatim>\<open>HalfPageUp\<close> moves the offset by three lines, to 5, where \<open>4 div 2 = 2\<close>.  And with
  header height 4 in a window of 2 rows the viewport height is \<open>-3\<close>, and \<^verbatim>\<open>HalfPageDown\<close>
  moves the offset from 3 to 2, by \<open>-1\<close> line (Go's division truncates), where the floor
  of \<open>-3 / 2\<close> is \<open>-2\<close>.
\<close>

theorem half_page_counterexample:
  "Width (viewport (run past_bottom_history New)) > 0 \<and>
   Height (viewport (run past_bottom_history New)) = 4 \<and>
   YOffset (viewport (run past_bottom_history New)) = 8 \<and>
   maxYOffset (viewport (run past_bottom_history New)) = 5 \<and>
   YOffset (viewport (HalfPageUp (run past_bottom_history New))) = 5 \<and>
   Width (viewport (run negative_height_history New)) > 0 \<and>
   Height (viewport (run negative_height_history New)) = - 3 \<and>
   YOffset (viewport (run negative_height_history New)) = 3 \<and>
   maxYOffset (viewport (run negative_height_history New)) = 15 \<and>
   YOffset (viewport (HalfPageDown (run negative_height_history New))) = 2 \<and>
   (- 3) div (2::int) = - 2"
  by code_simp




end
